theory Spec2Isabelle
  imports Main
begin

section \<open>Conditional exports resolution of turbo-meta-utilities\<close>

text \<open>
  The development embeds the classes \<open>ExportTarget\<close> and \<open>GlobResolver\<close> of
  \<open>src/package-json.ts\<close>. JavaScript strings are modelled as \<open>string\<close>, the
  optional string \<open>string | undefined\<close> as \<open>string option\<close>, a thrown \<open>Error\<close> as
  the left summand of a sum type.
\<close>

subsection \<open>Data model\<close>

text \<open>
  \<open>type ExportValue = string | null | ExportValue[] | { [condition: string]: ExportValue }\<close>.
  An object is the list of its own entries in the order \<open>Object.entries\<close> enumerates them;
  the keys of an object are pairwise distinct. The specification calls the four shapes
  Leaf, Blocked, List and Conditional.
\<close>

datatype export_value =
    Str string
  | Null
  | Arr "export_value list"
  | Obj "(string \<times> export_value) list"

text \<open>
  The result type \<open>string | null | undefined\<close> of \<open>_resolveExportValue\<close>: a path
  (Leaf), \<open>null\<close> (Blocked) or \<open>undefined\<close> (Absent).
\<close>

datatype resolved = RStr string | RNull | RUndefined

text \<open>\<open>interface ResolveResult { target?: string; blocked: boolean }\<close>\<close>

record ResolveResult =
  target :: "string option"
  blocked :: bool

datatype ConditionSetKey = Key_default | Key_import | Key_require | Key_types

text \<open>
  \<open>interface ExportTargetOptions\<close>: both members are optional, and \<open>conditionSets\<close> is a
  partial record over the four keys.
\<close>

record ExportTargetOptions =
  conditionPriority :: "string list option"
  conditionSets :: "(ConditionSetKey \<Rightarrow> string list option) option"

text \<open>
  The fields of an \<open>ExportTarget\<close> instance. The public fields \<open>default\<close>, \<open>import\<close>,
  \<open>require\<close> and \<open>types\<close> carry the prefix \<open>et\<close>, as do the private ones
  \<open>_target\<close>, \<open>_conditionPriority\<close> and \<open>_conditionSets\<close>.
\<close>

record ExportTarget =
  et_default :: "string option"
  et_import :: "string option"
  et_require :: "string option"
  et_types :: "string option"
  et_target :: export_value
  et_conditionPriority :: "string list"
  et_conditionSets :: "ConditionSetKey \<Rightarrow> string list"

text \<open>\<open>throw new Error(`Invalid export target: ${JSON.stringify(target)}`)\<close>\<close>

datatype error = InvalidExportTarget export_value

definition DEFAULT_CONDITION_PRIORITY :: "string list" where
  "DEFAULT_CONDITION_PRIORITY = [''node'', ''browser'', ''import'', ''require'', ''types'']"

subsection \<open>\<open>ExportTarget._resolveExportValue\<close>\<close>

text \<open>
  \<open>resolveArr\<close> is the \<open>for (const entry of value)\<close> loop over an array, with the local
  flag \<open>blocked\<close> (written \<open>blocked'\<close>); \<open>resolveObj\<close> is the
  \<open>for (const condition of conditions)\<close> loop over the conditions still to visit, which looks each one up in the object
  (\<open>hasOwnProperty\<close>, then \<open>value[condition]\<close>) and recurses with the full list.
\<close>

function resolveExportValue :: "export_value \<Rightarrow> string list \<Rightarrow> resolved"
  and resolveArr :: "export_value list \<Rightarrow> string list \<Rightarrow> bool \<Rightarrow> resolved"
  and resolveObj :: "(string \<times> export_value) list \<Rightarrow> string list \<Rightarrow> string list \<Rightarrow> resolved"
where
  "resolveExportValue Null conditions = RNull"
| "resolveExportValue (Str s) conditions = RStr s"
| "resolveExportValue (Arr entries) conditions = resolveArr entries conditions False"
| "resolveExportValue (Obj m) conditions = resolveObj m conditions conditions"
| "resolveArr [] conditions blocked' = (if blocked' then RNull else RUndefined)"
| "resolveArr (entry # rest) conditions blocked' =
     (case resolveExportValue entry conditions of
        RNull \<Rightarrow> resolveArr rest conditions True
      | RUndefined \<Rightarrow> resolveArr rest conditions blocked'
      | RStr s \<Rightarrow> RStr s)"
| "resolveObj m conditions [] = RUndefined"
| "resolveObj m conditions (condition # rest) =
     (case map_of m condition of
        None \<Rightarrow> resolveObj m conditions rest
      | Some v \<Rightarrow>
          (case resolveExportValue v conditions of
             RUndefined \<Rightarrow> resolveObj m conditions rest
           | RNull \<Rightarrow> RNull
           | RStr s \<Rightarrow> RStr s))"
  by pat_completeness auto
termination
  apply (relation "measures [
     (\<lambda>x. case x of Inl (v, _) \<Rightarrow> 2 * size v
                 | Inr (Inl (es, _, _)) \<Rightarrow> 2 * size_list size es + 1
                 | Inr (Inr (m, _, _)) \<Rightarrow> 2 * size_list (size_prod (\<lambda>_. 0) size) m + 1),
     (\<lambda>x. case x of Inl _ \<Rightarrow> 0
                 | Inr (Inl _) \<Rightarrow> 0
                 | Inr (Inr (_, _, cs)) \<Rightarrow> length cs)]")
         apply simp_all
  subgoal for m condition v
    by (induction m) (auto split: if_splits)
  done

subsection \<open>\<open>ExportTarget._normalizeConditions\<close>\<close>

text \<open>
  The loop keeps the set \<open>seen\<close> and the array \<open>normalized\<close>; \<open>default\<close> is pushed
  afterwards when it has not been seen.
\<close>

fun normalizeLoop :: "string list \<Rightarrow> string set \<Rightarrow> string list \<Rightarrow> string set \<times> string list" where
  "normalizeLoop [] seen normalized = (seen, normalized)"
| "normalizeLoop (condition # rest) seen normalized =
     (if condition \<notin> seen
      then normalizeLoop rest (insert condition seen) (normalized @ [condition])
      else normalizeLoop rest seen normalized)"

definition normalizeConditions :: "string list \<Rightarrow> string list" where
  "normalizeConditions conditions =
     (case normalizeLoop conditions {} [] of
        (seen, normalized) \<Rightarrow>
          if ''default'' \<notin> seen then normalized @ [''default''] else normalized)"

subsection \<open>\<open>ExportTarget._resolveFor\<close>, the constructor and \<open>resolve\<close>\<close>

definition resolveFor :: "export_value \<Rightarrow> string list \<Rightarrow> ResolveResult" where
  "resolveFor tgt conditions =
     (case resolveExportValue tgt conditions of
        RNull \<Rightarrow> \<lparr>target = None, blocked = True\<rparr>
      | RStr s \<Rightarrow> \<lparr>target = Some s, blocked = False\<rparr>
      | RUndefined \<Rightarrow> \<lparr>target = None, blocked = False\<rparr>)"

text \<open>
  The operator \<open>a ?? b\<close> on optional strings; \<open>a ?? b ?? c\<close> is read as
  \<open>(a ?? b) ?? c\<close>.
\<close>

definition nullish :: "string option \<Rightarrow> string option \<Rightarrow> string option" where
  "nullish a b = (case a of None \<Rightarrow> b | Some s \<Rightarrow> Some s)"

text \<open>
  \<open>!x\<close> on an optional string: JavaScript takes \<open>undefined\<close> and the empty string for
  false.
\<close>

definition falsy :: "string option \<Rightarrow> bool" where
  "falsy x = (case x of None \<Rightarrow> True | Some s \<Rightarrow> s = [])"

text \<open>\<open>options.conditionSets?.[key] ?? fallback\<close>\<close>

definition conditionSetOr :: "ExportTargetOptions \<Rightarrow> ConditionSetKey \<Rightarrow> string list \<Rightarrow> string list" where
  "conditionSetOr options key fallback =
     (case conditionSets options of
        None \<Rightarrow> fallback
      | Some sets \<Rightarrow> (case sets key of None \<Rightarrow> fallback | Some cs \<Rightarrow> cs))"

definition defaultOptions :: ExportTargetOptions where
  "defaultOptions = \<lparr>conditionPriority = None, conditionSets = None\<rparr>"

text \<open>\<open>new ExportTarget(target, options)\<close>: \<open>Inl\<close> is the thrown error.\<close>

definition newExportTarget :: "export_value \<Rightarrow> ExportTargetOptions \<Rightarrow> error + ExportTarget" where
  "newExportTarget tgt options =
     (let priority = normalizeConditions
            (case conditionPriority options of None \<Rightarrow> DEFAULT_CONDITION_PRIORITY | Some p \<Rightarrow> p);
          sets = (\<lambda>key. case key of
              Key_default \<Rightarrow> normalizeConditions (conditionSetOr options Key_default (''default'' # priority))
            | Key_import \<Rightarrow> normalizeConditions (conditionSetOr options Key_import (''import'' # priority))
            | Key_require \<Rightarrow> normalizeConditions (conditionSetOr options Key_require (''require'' # priority))
            | Key_types \<Rightarrow> normalizeConditions (conditionSetOr options Key_types (''types'' # priority)));
          defaultResult = resolveFor tgt (sets Key_default);
          importResult = resolveFor tgt (sets Key_import);
          requireResult = resolveFor tgt (sets Key_require);
          typesResult = resolveFor tgt (sets Key_types);
          this = \<lparr>et_default = nullish (nullish (nullish (target defaultResult) (target importResult))
                     (target requireResult)) (target typesResult),
                  et_import = target importResult,
                  et_require = target requireResult,
                  et_types = target typesResult,
                  et_target = tgt,
                  et_conditionPriority = priority,
                  et_conditionSets = sets\<rparr>
      in if falsy (et_default this) \<and> falsy (et_import this)
            \<and> falsy (et_require this) \<and> falsy (et_types this)
         then (let fallback = resolveFor tgt priority
               in if falsy (target fallback) \<and> \<not> blocked fallback
                  then Inl (InvalidExportTarget tgt)
                  else Inr (this\<lparr>et_default := target fallback\<rparr>))
         else Inr this)"

text \<open>\<open>public resolve(conditions: string[]): string | undefined\<close>\<close>

definition resolve :: "ExportTarget \<Rightarrow> string list \<Rightarrow> string option" where
  "resolve this conditions =
     (let r = resolveFor (et_target this) (normalizeConditions conditions)
      in if blocked r then None else target r)"

subsection \<open>\<open>GlobResolver\<close>: regular expressions for the captures\<close>

text \<open>
  \<open>String.prototype.replace\<close> with a global pattern that matches one fixed, non-empty
  string and a replacement text without \<open>$\<close>: the matches are found from left to
  right and do not overlap.
\<close>

function replaceAll :: "string \<Rightarrow> string \<Rightarrow> string \<Rightarrow> string" where
  "replaceAll pat rep [] = []"
| "replaceAll pat rep (c # cs) =
     (if pat \<noteq> [] \<and> take (length pat) (c # cs) = pat
      then rep @ replaceAll pat rep (drop (length pat) (c # cs))
      else c # replaceAll pat rep cs)"
  by pat_completeness auto
termination
  by (relation "measure (\<lambda>(pat, rep, s). length s)") (auto simp: Suc_le_eq)

text \<open>
  \<open>pattern.replace(/[.+?^${}()|[\]\\]/g, '\\$&')\<close>: every character of the class gets
  a backslash in front (\<open>$&\<close> is the matched character).
\<close>

definition regexSpecial :: "char \<Rightarrow> bool" where
  "regexSpecial c = (c \<in> set ''.+?^${}()|[]'' \<or> c = CHR 0x5C)"

fun escapeRegex :: "string \<Rightarrow> string" where
  "escapeRegex [] = []"
| "escapeRegex (c # cs) =
     (if regexSpecial c then CHR 0x5C # c # escapeRegex cs else c # escapeRegex cs)"

definition globToRegex :: "string \<Rightarrow> string" where
  "globToRegex pattern =
     (let regex = escapeRegex pattern;
          regex = replaceAll ''**'' ''~~DOUBLESTAR~~'' regex;
          regex = replaceAll ''*'' ''([^/]*)'' regex
      in replaceAll ''~~DOUBLESTAR~~'' ''(.*)'' regex)"

text \<open>
  The regular expressions that \<open>globToRegex\<close> writes are read by \<open>new RegExp\<close>. They
  consist of escaped characters, ordinary characters and the two groups \<open>([^/]*)\<close> and
  \<open>(.*)\<close>; \<open>parseRegex\<close> reads this fragment of the syntax.
\<close>

datatype regex_item = Lit char | NoSlashGroup | AnyGroup

function parseRegex :: "string \<Rightarrow> regex_item list" where
  "parseRegex [] = []"
| "parseRegex (c # cs) =
     (if c = CHR 0x5C then (case cs of [] \<Rightarrow> [Lit c] | d # ds \<Rightarrow> Lit d # parseRegex ds)
      else if take 7 (c # cs) = ''([^/]*)'' then NoSlashGroup # parseRegex (drop 7 (c # cs))
      else if take 4 (c # cs) = ''(.*)'' then AnyGroup # parseRegex (drop 4 (c # cs))
      else Lit c # parseRegex cs)"
  by pat_completeness auto
termination
  by (relation "measure length") auto

text \<open>
  In a regular expression without the \<open>s\<close> flag the dot matches no line terminator;
  of the four, line feed and carriage return are characters of the type \<open>char\<close>.
\<close>

definition lineTerminator :: "char \<Rightarrow> bool" where
  "lineTerminator c = (c = CHR 0x0A \<or> c = CHR 0x0D)"

text \<open>
  Matching \<open>^...$\<close> against the whole string, as a backtracking matcher does: a starred
  group is greedy, so it first takes the longest run of admissible characters and gives
  characters back one at a time until the rest of the expression matches. The result
  is the list of the groups' texts, \<open>match.slice(1)\<close>.
\<close>

fun matchItems :: "regex_item list \<Rightarrow> string \<Rightarrow> string list option" where
  "matchItems [] s = (if s = [] then Some [] else None)"
| "matchItems (Lit c # items) s =
     (case s of [] \<Rightarrow> None | d # ds \<Rightarrow> if c = d then matchItems items ds else None)"
| "matchItems (NoSlashGroup # items) s =
     (case find (\<lambda>n. matchItems items (drop n s) \<noteq> None)
             (rev [0 ..< Suc (length (takeWhile (\<lambda>c. c \<noteq> CHR ''/'') s))]) of
        None \<Rightarrow> None
      | Some n \<Rightarrow> map_option (\<lambda>captures. take n s # captures) (matchItems items (drop n s)))"
| "matchItems (AnyGroup # items) s =
     (case find (\<lambda>n. matchItems items (drop n s) \<noteq> None)
             (rev [0 ..< Suc (length (takeWhile (\<lambda>c. \<not> lineTerminator c) s))]) of
        None \<Rightarrow> None
      | Some n \<Rightarrow> map_option (\<lambda>captures. take n s # captures) (matchItems items (drop n s)))"

definition extractCaptures :: "string \<Rightarrow> string \<Rightarrow> string list" where
  "extractCaptures pattern importPath =
     (case matchItems (parseRegex (globToRegex pattern)) importPath of
        None \<Rightarrow> []
      | Some captures \<Rightarrow> captures)"

subsection \<open>\<open>GlobResolver\<close>: substitution of the captures\<close>

text \<open>
  \<open>result.replace(/\*\*/g, () => (captureIndex < captures.length ? captures[captureIndex++] : '**'))\<close>:
  one pass over the string for the marker \<open>pat\<close>, from left to right; every match calls
  the replacer, which takes the next capture and advances the counter, or returns the
  text \<open>lit\<close> when the captures are used up. The pass returns the new string and the
  counter.
\<close>

function replacePass :: "string \<Rightarrow> string \<Rightarrow> string list \<Rightarrow> nat \<Rightarrow> string \<Rightarrow> string \<times> nat" where
  "replacePass pat lit captures captureIndex [] = ([], captureIndex)"
| "replacePass pat lit captures captureIndex (c # cs) =
     (if pat \<noteq> [] \<and> take (length pat) (c # cs) = pat
      then (if captureIndex < length captures
            then (case replacePass pat lit captures (Suc captureIndex) (drop (length pat) (c # cs)) of
                    (rest, i) \<Rightarrow> (captures ! captureIndex @ rest, i))
            else (case replacePass pat lit captures captureIndex (drop (length pat) (c # cs)) of
                    (rest, i) \<Rightarrow> (lit @ rest, i)))
      else (case replacePass pat lit captures captureIndex cs of
              (rest, i) \<Rightarrow> (c # rest, i)))"
  by pat_completeness auto
termination
  by (relation "measure (\<lambda>(pat, lit, captures, i, s). length s)") (auto simp: Suc_le_eq)

text \<open>
  \<open>_replaceWildcards\<close>: the pass for \<open>**\<close> runs over the whole string first, then the
  pass for \<open>*\<close> runs over its result with the counter where the first pass left it.
\<close>

definition replaceWildcards :: "string \<Rightarrow> string list \<Rightarrow> string" where
  "replaceWildcards targetPath captures =
     (case replacePass ''**'' ''**'' captures 0 targetPath of
        (result, captureIndex) \<Rightarrow> fst (replacePass ''*'' ''*'' captures captureIndex result))"

text \<open>
  \<open>_substituteExportValue\<close>. For an object the code fills a fresh object literal with
  \<open>substituted[key] = ...\<close> for every entry. For the key \<open>__proto__\<close> that assignment
  reaches the setter of \<open>Object.prototype\<close> and creates no own property, so the entry is
  missing from the result.
\<close>

fun substituteExportValue :: "export_value \<Rightarrow> string list \<Rightarrow> export_value" where
  "substituteExportValue (Str s) captures = Str (replaceWildcards s captures)"
| "substituteExportValue Null captures = Null"
| "substituteExportValue (Arr entries) captures =
     Arr (map (\<lambda>entry. substituteExportValue entry captures) entries)"
| "substituteExportValue (Obj m) captures =
     Obj (filter (\<lambda>(key, v). key \<noteq> ''__proto__'')
            (map (\<lambda>(key, v). (key, substituteExportValue v captures)) m))"

subsection \<open>\<open>GlobResolver.resolveImport\<close>\<close>

text \<open>
  \<open>resolveImport\<close> is the loop of the method over the list
  \<open>Object.entries(this.patterns)\<close>. The function \<open>minimatch\<close> of the package of that
  name is not part of the repository: it is the parameter \<open>minimatch\<close>, called as
  \<open>minimatch(importPath, pattern)\<close>. The result \<open>Inr None\<close> is \<open>undefined\<close>, \<open>Inl\<close> the
  error thrown by the constructor.
\<close>

fun resolveImport :: "(string \<Rightarrow> string \<Rightarrow> bool) \<Rightarrow> (string \<times> export_value) list \<Rightarrow> string
    \<Rightarrow> ExportTargetOptions \<Rightarrow> error + ExportTarget option" where
  "resolveImport minimatch [] importPath options = Inr None"
| "resolveImport minimatch ((pattern, tgt) # rest) importPath options =
     (if \<not> minimatch importPath pattern then resolveImport minimatch rest importPath options
      else if CHR ''*'' \<notin> set pattern then map_sum id Some (newExportTarget tgt options)
      else (let captures = extractCaptures pattern importPath;
                substitutedTarget = substituteExportValue tgt captures
            in map_sum id Some (newExportTarget substitutedTarget options)))"

text \<open>
  \<open>Object.entries\<close> on an object whose properties were created in the order of the list
  \<open>properties\<close>, as an object literal or \<open>JSON.parse\<close> creates them in the order of
  their declaration. JavaScript enumerates the keys that are array indices first, in
  ascending numeric order, and the other keys after them in the order of their creation.
  An array index is the decimal numeral, without a sign and without leading zeros, of an
  integer below \<open>2^32 - 1\<close>.
\<close>

definition isDigit :: "char \<Rightarrow> bool" where
  "isDigit c = (48 \<le> (of_char c :: nat) \<and> (of_char c :: nat) \<le> 57)"

definition indexValue :: "string \<Rightarrow> nat" where
  "indexValue s = foldl (\<lambda>n c. 10 * n + (of_char c - 48)) 0 s"

definition isArrayIndex :: "string \<Rightarrow> bool" where
  "isArrayIndex s =
     (s \<noteq> [] \<and> list_all isDigit s \<and> (hd s \<noteq> CHR ''0'' \<or> s = ''0'')
      \<and> indexValue s < 4294967295)"

definition objectEntries :: "(string \<times> 'a) list \<Rightarrow> (string \<times> 'a) list" where
  "objectEntries properties =
     sort_key (\<lambda>(key, v). indexValue key) (filter (\<lambda>(key, v). isArrayIndex key) properties)
     @ filter (\<lambda>(key, v). \<not> isArrayIndex key) properties"

text \<open>
  The method \<open>resolveImport\<close> of a \<open>GlobResolver\<close> whose table \<open>patterns\<close> was declared
  with its keys in the order of the list.
\<close>

definition GlobResolver_resolveImport :: "(string \<Rightarrow> string \<Rightarrow> bool) \<Rightarrow> (string \<times> export_value) list
    \<Rightarrow> string \<Rightarrow> ExportTargetOptions \<Rightarrow> error + ExportTarget option" where
  "GlobResolver_resolveImport minimatch patterns importPath options =
     resolveImport minimatch (objectEntries patterns) importPath options"

section \<open>Notions used in the statements\<close>

text \<open>A result is a path when it is a string, neither \<open>null\<close> nor \<open>undefined\<close>.\<close>

definition isPath :: "resolved \<Rightarrow> bool" where
  "isPath r = (case r of RStr s \<Rightarrow> True | RNull \<Rightarrow> False | RUndefined \<Rightarrow> False)"

text \<open>
  A condition name falls through at an object when the object has no entry for it, or the
  entry resolves to \<open>undefined\<close> under the full condition list.
\<close>

definition fallsThrough :: "(string \<times> export_value) list \<Rightarrow> string list \<Rightarrow> string \<Rightarrow> bool" where
  "fallsThrough m conditions c =
     (case map_of m c of
        None \<Rightarrow> True
      | Some v \<Rightarrow> resolveExportValue v conditions = RUndefined)"

text \<open>
  Removing duplicates and keeping first occurrences, said without a loop: the element at
  position \<open>i\<close> stays exactly when it does not occur before \<open>i\<close>.
\<close>

definition keepFirstOccurrences :: "string list \<Rightarrow> string list" where
  "keepFirstOccurrences cs =
     map (\<lambda>i. cs ! i) (filter (\<lambda>i. cs ! i \<notin> set (take i cs)) [0 ..< length cs])"

text \<open>
  The condition lists the constructor computes from its options: the normalized priority
  list \<open>this._conditionPriority\<close> and the four standard sets \<open>this._conditionSets\<close>.
\<close>

definition keyName :: "ConditionSetKey \<Rightarrow> string" where
  "keyName key = (case key of Key_default \<Rightarrow> ''default'' | Key_import \<Rightarrow> ''import''
     | Key_require \<Rightarrow> ''require'' | Key_types \<Rightarrow> ''types'')"

definition priorityOf :: "ExportTargetOptions \<Rightarrow> string list" where
  "priorityOf options = normalizeConditions
     (case conditionPriority options of None \<Rightarrow> DEFAULT_CONDITION_PRIORITY | Some p \<Rightarrow> p)"

definition conditionSetOf :: "ExportTargetOptions \<Rightarrow> ConditionSetKey \<Rightarrow> string list" where
  "conditionSetOf options key =
     normalizeConditions (conditionSetOr options key (keyName key # priorityOf options))"

text \<open>
  The results that leave a field of the target false to the test \<open>!this.field\<close>:
  \<open>undefined\<close>, \<open>null\<close> and the empty string.
\<close>

definition unusable :: "resolved \<Rightarrow> bool" where
  "unusable r = (r = RUndefined \<or> r = RNull \<or> r = RStr [])"

text \<open>
  The substitution that claim C4 describes, for comparison with \<open>replaceWildcards\<close>: one
  scan of the leaf from left to right, in which every run of asterisks met, \<open>**\<close> or
  \<open>*\<close>, takes the next unused capture; a marker stays as it is when the captures are
  used up.
\<close>

fun leftToRightScan :: "string \<Rightarrow> string list \<Rightarrow> string" where
  "leftToRightScan [] captures = []"
| "leftToRightScan (c # cs) captures =
     (if c = CHR ''*''
      then (case cs of
              d # ds \<Rightarrow>
                if d = CHR ''*''
                then (case captures of
                        [] \<Rightarrow> ''**'' @ leftToRightScan ds []
                      | capture # unused \<Rightarrow> capture @ leftToRightScan ds unused)
                else (case captures of
                        [] \<Rightarrow> ''*'' @ leftToRightScan cs []
                      | capture # unused \<Rightarrow> capture @ leftToRightScan cs unused)
            | [] \<Rightarrow>
                (case captures of
                   [] \<Rightarrow> ''*''
                 | capture # unused \<Rightarrow> capture))
      else c # leftToRightScan cs captures)"

text \<open>
  The export value that \<open>resolveImport\<close> hands to the constructor for a selected pattern:
  the stored value, with the captures substituted when the pattern contains an asterisk.
\<close>

definition targetFor :: "string \<Rightarrow> export_value \<Rightarrow> string \<Rightarrow> export_value" where
  "targetFor pattern tgt importPath =
     (if CHR ''*'' \<in> set pattern
      then substituteExportValue tgt (extractCaptures pattern importPath)
      else tgt)"

text \<open>
  Modelled from the spec: the function \<open>minimatch\<close> of the package of that name, which
  \<open>resolveImport\<close> calls and the repository does not contain. The specification
  (section 4.2) asks for conventional glob semantics. \<open>questionMarkGlob\<close> gives them for
  the patterns that consist of ordinary characters and question marks: an ordinary
  character matches itself, a question mark matches one character other than the
  separator \<open>/\<close>, and not a dot that begins a path segment. It is used for concrete
  examples only; the theorems about \<open>resolveImport\<close> hold for every matcher.
\<close>

fun questionMarkFrom :: "bool \<Rightarrow> string \<Rightarrow> string \<Rightarrow> bool" where
  "questionMarkFrom start [] [] = True"
| "questionMarkFrom start (c # path) (p # pattern) =
     ((if p = CHR ''?'' then c \<noteq> CHR ''/'' \<and> \<not> (start \<and> c = CHR ''.'') else c = p)
      \<and> questionMarkFrom (c = CHR ''/'') path pattern)"
| "questionMarkFrom start [] (p # pattern) = False"
| "questionMarkFrom start (c # path) [] = False"

definition questionMarkGlob :: "string \<Rightarrow> string \<Rightarrow> bool" where
  "questionMarkGlob path pattern = questionMarkFrom True path pattern"

section \<open>Properties of the export value resolver\<close>

subsection \<open>The two loops of \<open>_resolveExportValue\<close>\<close>

lemma resolveArr_find:
  "resolveArr entries conditions b =
     (case find (\<lambda>e. isPath (resolveExportValue e conditions)) entries of
        Some e \<Rightarrow> resolveExportValue e conditions
      | None \<Rightarrow>
          if b \<or> (\<exists>e \<in> set entries. resolveExportValue e conditions = RNull)
          then RNull else RUndefined)"
  by (induction entries arbitrary: b) (auto simp: isPath_def split: resolved.splits)

lemma resolveObj_map_of:
  "map_of m' = map_of m \<Longrightarrow> resolveObj m' conditions rest = resolveObj m conditions rest"
  by (induction rest) (auto split: resolved.splits option.splits)

lemma resolveObj_all_fall_through:
  "\<forall>c \<in> set rest. fallsThrough m conditions c \<Longrightarrow> resolveObj m conditions rest = RUndefined"
  by (induction rest) (auto simp: fallsThrough_def split: option.splits)

lemma resolveObj_first_decisive:
  assumes "\<forall>c' \<in> set before. fallsThrough m conditions c'"
    and "map_of m c = Some v" and "resolveExportValue v conditions \<noteq> RUndefined"
  shows "resolveObj m conditions (before @ c # after) = resolveExportValue v conditions"
  using assms
  by (induction before) (auto simp: fallsThrough_def split: option.splits resolved.splits)

lemma resolveObj_Nil: "resolveObj [] cs rest = RUndefined"
  by (induction rest) simp_all

text \<open>
  Claim C1. A Conditional node (an object) is searched in the order of the caller's
  condition list, and every recursion gets the same full list. If the list is
  \<open>before @ c # after\<close>, every name in \<open>before\<close> falls through (no entry, or an entry
  that resolves to Absent) and the entry of \<open>c\<close> resolves to something other than Absent,
  then that result is the node's result: a path, or Blocked, which is returned at once
  and is not passed over in favour of a later condition. If every name of the list falls
  through, in particular if no name has an entry, the node is Absent. The order of the
  entries in the object plays no part: two objects with the same entries resolve alike.
\<close>

theorem conditional_follows_caller_order:
  "(conditions = before @ c # after
      \<and> (\<forall>c' \<in> set before. fallsThrough m conditions c')
      \<and> map_of m c = Some v \<and> resolveExportValue v conditions \<noteq> RUndefined
      \<longrightarrow> resolveExportValue (Obj m) conditions = resolveExportValue v conditions)
   \<and> ((\<forall>c \<in> set conditions. fallsThrough m conditions c)
      \<longrightarrow> resolveExportValue (Obj m) conditions = RUndefined)
   \<and> ((\<forall>c \<in> set conditions. map_of m c = None)
      \<longrightarrow> resolveExportValue (Obj m) conditions = RUndefined)
   \<and> (map_of m' = map_of m
      \<longrightarrow> resolveExportValue (Obj m') conditions = resolveExportValue (Obj m) conditions)"
proof (intro conjI impI)
  assume h: "conditions = before @ c # after
      \<and> (\<forall>c' \<in> set before. fallsThrough m conditions c')
      \<and> map_of m c = Some v \<and> resolveExportValue v conditions \<noteq> RUndefined"
  then have "resolveObj m conditions (before @ c # after) = resolveExportValue v conditions"
    by (intro resolveObj_first_decisive) auto
  with h show "resolveExportValue (Obj m) conditions = resolveExportValue v conditions"
    by simp
next
  assume "\<forall>c \<in> set conditions. fallsThrough m conditions c"
  then show "resolveExportValue (Obj m) conditions = RUndefined"
    by (simp add: resolveObj_all_fall_through)
next
  assume "\<forall>c \<in> set conditions. map_of m c = None"
  then have "\<forall>c \<in> set conditions. fallsThrough m conditions c"
    by (simp add: fallsThrough_def)
  then show "resolveExportValue (Obj m) conditions = RUndefined"
    by (simp add: resolveObj_all_fall_through)
next
  assume "map_of m' = map_of m"
  then show "resolveExportValue (Obj m') conditions = resolveExportValue (Obj m) conditions"
    using resolveObj_map_of [of m' m conditions conditions] by simp
qed

text \<open>
  The object lists \<open>require\<close> first, the caller lists it last: \<open>node\<close> falls through (its
  entry is an empty object), \<open>import\<close> is \<open>null\<close> and blocks the node, and the path under
  \<open>require\<close> is never reached. An object without any of the requested names is Absent.
\<close>

theorem conditional_follows_caller_order_witness:
  "[''node'', ''import'', ''require''] = [''node''] @ ''import'' # [''require'']
   \<and> fallsThrough [(''require'', Str ''./r.cjs''), (''import'', Null), (''node'', Obj [])]
        [''node'', ''import'', ''require''] ''node''
   \<and> map_of [(''require'', Str ''./r.cjs''), (''import'', Null), (''node'', Obj [])] ''import'' = Some Null
   \<and> resolveExportValue Null [''node'', ''import'', ''require''] \<noteq> RUndefined
   \<and> resolveExportValue (Obj [(''require'', Str ''./r.cjs''), (''import'', Null), (''node'', Obj [])])
        [''node'', ''import'', ''require''] = RNull
   \<and> map_of [(''import'', Null), (''require'', Str ''./r.cjs''), (''node'', Obj [])]
        = map_of [(''require'', Str ''./r.cjs''), (''import'', Null), (''node'', Obj [])]
   \<and> resolveExportValue (Obj [(''import'', Null), (''require'', Str ''./r.cjs''), (''node'', Obj [])])
        [''node'', ''import'', ''require''] = RNull
   \<and> map_of [(''require'', Str ''./r.cjs'')] ''node'' = None
   \<and> map_of [(''require'', Str ''./r.cjs'')] ''import'' = None
   \<and> resolveExportValue (Obj [(''require'', Str ''./r.cjs'')]) [''node'', ''import''] = RUndefined"
  using conditional_follows_caller_order [of "[''node'', ''import'', ''require'']" "[''node'']"
      "''import''" "[''require'']"
      "[(''require'', Str ''./r.cjs''), (''import'', Null), (''node'', Obj [])]" Null
      "[(''import'', Null), (''require'', Str ''./r.cjs''), (''node'', Obj [])]"]
    conditional_follows_caller_order [of "[''node'', ''import'']" "[]" "''x''" "[]"
      "[(''require'', Str ''./r.cjs'')]" Null "[]"]
  by (auto simp: fallsThrough_def fun_eq_iff)

text \<open>
  Claim C2. A List node (an array) is tried in declared order and resolves to the result
  of its first element that resolves to a path; when no element resolves to a path, it is
  Blocked if some element resolved to Blocked and Absent otherwise. So
  \<open>[null, "a"]\<close> resolves to \<open>"a"\<close>, \<open>[null]\<close> to Blocked, and \<open>[null, e]\<close> to Blocked
  for every entry \<open>e\<close> that resolves to Absent.
\<close>

theorem list_first_path_else_blocked:
  "resolveExportValue (Arr entries) conditions =
     (case find (\<lambda>e. isPath (resolveExportValue e conditions)) entries of
        Some e \<Rightarrow> resolveExportValue e conditions
      | None \<Rightarrow>
          if \<exists>e \<in> set entries. resolveExportValue e conditions = RNull
          then RNull else RUndefined)
   \<and> resolveExportValue (Arr [Null, Str ''a'']) conditions = RStr ''a''
   \<and> resolveExportValue (Arr [Null]) conditions = RNull
   \<and> (resolveExportValue e conditions = RUndefined
        \<longrightarrow> resolveExportValue (Arr [Null, e]) conditions = RNull)"
proof (intro conjI impI)
  show "resolveExportValue (Arr entries) conditions =
     (case find (\<lambda>e. isPath (resolveExportValue e conditions)) entries of
        Some e \<Rightarrow> resolveExportValue e conditions
      | None \<Rightarrow>
          if \<exists>e \<in> set entries. resolveExportValue e conditions = RNull
          then RNull else RUndefined)"
    using resolveArr_find [of entries conditions False] by auto
  show "resolveExportValue (Arr [Null, Str ''a'']) conditions = RStr ''a''"
    by simp
  show "resolveExportValue (Arr [Null]) conditions = RNull"
    by simp
  assume "resolveExportValue e conditions = RUndefined"
  then show "resolveExportValue (Arr [Null, e]) conditions = RNull"
    by simp
qed

theorem list_first_path_else_blocked_witness:
  "resolveExportValue (Obj [(''node'', Str ''./n.js'')]) [''import'', ''default''] = RUndefined
   \<and> resolveExportValue (Arr [Null, Obj [(''node'', Str ''./n.js'')]]) [''import'', ''default''] = RNull
   \<and> resolveExportValue (Arr [Obj [], Null, Str ''./a.js'', Str ''./b.js'']) [''import'', ''default'']
        = RStr ''./a.js''"
  using list_first_path_else_blocked [of "[Null, Obj [(''node'', Str ''./n.js'')]]"
      "[''import'', ''default'']" "Obj [(''node'', Str ''./n.js'')]"]
    list_first_path_else_blocked [of "[Obj [], Null, Str ''./a.js'', Str ''./b.js'']"
      "[''import'', ''default'']" Null]
  by (simp add: isPath_def)

subsection \<open>Normalizing a condition list\<close>

lemma normalizeLoop_eq:
  "normalizeLoop cs seen acc =
     (seen \<union> set cs,
      acc @ map (\<lambda>i. cs ! i) (filter (\<lambda>i. cs ! i \<notin> seen \<union> set (take i cs)) [0 ..< length cs]))"
proof (induction cs arbitrary: seen acc)
  case Nil
  show ?case by simp
next
  case (Cons c cs)
  have upt: "[0 ..< length (c # cs)] = 0 # map Suc [0 ..< length cs]"
    by (simp add: upt_conv_Cons map_Suc_upt del: upt_Suc)
  have same: "map ((!) cs) (filter P xs) = map ((!) cs) (filter Q xs)"
    if "\<And>i. P i = Q i" for P Q and xs :: "nat list"
    using that by presburger
  show ?case
  proof (cases "c \<in> seen")
    case True
    then show ?thesis
      unfolding upt by (auto simp add: Cons.IH filter_map comp_def intro!: same)
  next
    case False
    then show ?thesis
      unfolding upt by (auto simp add: Cons.IH filter_map comp_def intro!: same)
  qed
qed

lemma normalizeConditions_eq:
  "normalizeConditions cs =
     keepFirstOccurrences cs @ (if ''default'' \<in> set cs then [] else [''default''])"
  by (simp add: normalizeConditions_def normalizeLoop_eq keepFirstOccurrences_def)

subsection \<open>The constructor and \<open>resolve\<close>\<close>

lemma resolve_eq:
  "resolve t cs =
     (case resolveExportValue (et_target t) (normalizeConditions cs) of
        RStr p \<Rightarrow> Some p | RNull \<Rightarrow> None | RUndefined \<Rightarrow> None)"
  by (simp add: resolve_def resolveFor_def Let_def split: resolved.splits)

lemma newExportTarget_target:
  "newExportTarget v options = Inr t \<Longrightarrow> et_target t = v"
  by (auto simp: newExportTarget_def Let_def split: if_splits)

lemma falsy_target_resolveFor:
  "falsy (target (resolveFor v cs)) = unusable (resolveExportValue v cs)"
  by (simp add: resolveFor_def falsy_def unusable_def split: resolved.splits)

lemma blocked_resolveFor:
  "blocked (resolveFor v cs) = (resolveExportValue v cs = RNull)"
  by (simp add: resolveFor_def split: resolved.splits)

lemma falsy_chain:
  "falsy (nullish (nullish (nullish a b) c) d) \<and> falsy b \<and> falsy c \<and> falsy d
     \<longleftrightarrow> falsy a \<and> falsy b \<and> falsy c \<and> falsy d"
  by (cases a; cases b; cases c) (simp_all add: nullish_def falsy_def)

lemma isl_newExportTarget:
  "isl (newExportTarget v options) \<longleftrightarrow>
     falsy (target (resolveFor v (conditionSetOf options Key_default)))
     \<and> falsy (target (resolveFor v (conditionSetOf options Key_import)))
     \<and> falsy (target (resolveFor v (conditionSetOf options Key_require)))
     \<and> falsy (target (resolveFor v (conditionSetOf options Key_types)))
     \<and> falsy (target (resolveFor v (priorityOf options)))
     \<and> \<not> blocked (resolveFor v (priorityOf options))"
proof -
  have "isl (newExportTarget v options) \<longleftrightarrow>
     (falsy (nullish (nullish (nullish (target (resolveFor v (conditionSetOf options Key_default)))
            (target (resolveFor v (conditionSetOf options Key_import))))
          (target (resolveFor v (conditionSetOf options Key_require))))
        (target (resolveFor v (conditionSetOf options Key_types))))
     \<and> falsy (target (resolveFor v (conditionSetOf options Key_import)))
     \<and> falsy (target (resolveFor v (conditionSetOf options Key_require)))
     \<and> falsy (target (resolveFor v (conditionSetOf options Key_types))))
     \<and> falsy (target (resolveFor v (priorityOf options)))
     \<and> \<not> blocked (resolveFor v (priorityOf options))"
    by (auto simp add: newExportTarget_def Let_def conditionSetOf_def priorityOf_def keyName_def)
  then show ?thesis
    by (simp only: falsy_chain conj_assoc)
qed

text \<open>
  When the constructor throws: each of the four standard resolutions is \<open>undefined\<close>,
  \<open>null\<close> or the empty string, and the resolution against the priority list is
  \<open>undefined\<close> or the empty string.
\<close>

lemma newExportTarget_throws_iff:
  "isl (newExportTarget v options) \<longleftrightarrow>
     unusable (resolveExportValue v (conditionSetOf options Key_default))
     \<and> unusable (resolveExportValue v (conditionSetOf options Key_import))
     \<and> unusable (resolveExportValue v (conditionSetOf options Key_require))
     \<and> unusable (resolveExportValue v (conditionSetOf options Key_types))
     \<and> (resolveExportValue v (priorityOf options) = RUndefined
          \<or> resolveExportValue v (priorityOf options) = RStr [])"
  unfolding isl_newExportTarget falsy_target_resolveFor blocked_resolveFor
  by (auto simp: unusable_def)

lemma newExportTarget_isl_cong:
  assumes "\<And>cs. resolveExportValue v cs = resolveExportValue v' cs"
  shows "isl (newExportTarget v options) = isl (newExportTarget v' options)"
  by (simp add: newExportTarget_throws_iff assms)

lemma normalized_default_lists:
  "normalizeConditions DEFAULT_CONDITION_PRIORITY
     = [''node'', ''browser'', ''import'', ''require'', ''types'', ''default'']"
  "normalizeConditions (''default'' # [''node'', ''browser'', ''import'', ''require'', ''types'', ''default''])
     = [''default'', ''node'', ''browser'', ''import'', ''require'', ''types'']"
  "normalizeConditions (''import'' # [''node'', ''browser'', ''import'', ''require'', ''types'', ''default''])
     = [''import'', ''node'', ''browser'', ''require'', ''types'', ''default'']"
  "normalizeConditions (''require'' # [''node'', ''browser'', ''import'', ''require'', ''types'', ''default''])
     = [''require'', ''node'', ''browser'', ''import'', ''types'', ''default'']"
  "normalizeConditions (''types'' # [''node'', ''browser'', ''import'', ''require'', ''types'', ''default''])
     = [''types'', ''node'', ''browser'', ''import'', ''require'', ''default'']"
  by (simp_all add: normalizeConditions_def DEFAULT_CONDITION_PRIORITY_def)

lemma priorityOf_defaultOptions:
  "priorityOf defaultOptions = [''node'', ''browser'', ''import'', ''require'', ''types'', ''default'']"
  by (simp add: priorityOf_def defaultOptions_def normalized_default_lists)

lemma conditionSetOf_defaultOptions:
  "conditionSetOf defaultOptions Key_default = [''default'', ''node'', ''browser'', ''import'', ''require'', ''types'']"
  "conditionSetOf defaultOptions Key_import = [''import'', ''node'', ''browser'', ''require'', ''types'', ''default'']"
  "conditionSetOf defaultOptions Key_require = [''require'', ''node'', ''browser'', ''import'', ''types'', ''default'']"
  "conditionSetOf defaultOptions Key_types = [''types'', ''node'', ''browser'', ''import'', ''require'', ''default'']"
  by (simp_all add: conditionSetOf_def conditionSetOr_def keyName_def priorityOf_defaultOptions
        normalized_default_lists, simp_all add: defaultOptions_def normalized_default_lists)


lemma conditionSets_fun:
  "(\<lambda>key. case key of
      Key_default \<Rightarrow> normalizeConditions (conditionSetOr options Key_default (''default'' # priorityOf options))
    | Key_import \<Rightarrow> normalizeConditions (conditionSetOr options Key_import (''import'' # priorityOf options))
    | Key_require \<Rightarrow> normalizeConditions (conditionSetOr options Key_require (''require'' # priorityOf options))
    | Key_types \<Rightarrow> normalizeConditions (conditionSetOr options Key_types (''types'' # priorityOf options)))
   = conditionSetOf options"
  by (rule ext) (simp add: conditionSetOf_def keyName_def split: ConditionSetKey.splits)

lemma newExportTarget_unfold:
  "newExportTarget v options =
     (let this = \<lparr>et_default =
                    nullish (nullish (nullish (target (resolveFor v (conditionSetOf options Key_default)))
                          (target (resolveFor v (conditionSetOf options Key_import))))
                        (target (resolveFor v (conditionSetOf options Key_require))))
                      (target (resolveFor v (conditionSetOf options Key_types))),
                  et_import = target (resolveFor v (conditionSetOf options Key_import)),
                  et_require = target (resolveFor v (conditionSetOf options Key_require)),
                  et_types = target (resolveFor v (conditionSetOf options Key_types)),
                  et_target = v,
                  et_conditionPriority = priorityOf options,
                  et_conditionSets = conditionSetOf options\<rparr>
      in if falsy (et_default this) \<and> falsy (et_import this)
            \<and> falsy (et_require this) \<and> falsy (et_types this)
         then (if falsy (target (resolveFor v (priorityOf options)))
                  \<and> \<not> blocked (resolveFor v (priorityOf options))
               then Inl (InvalidExportTarget v)
               else Inr (this\<lparr>et_default := target (resolveFor v (priorityOf options))\<rparr>))
         else Inr this)"
  unfolding newExportTarget_def Let_def priorityOf_def [symmetric] conditionSets_fun
  by (simp add: conditionSetOf_def keyName_def)

lemmas evalDefault =
  newExportTarget_unfold priorityOf_defaultOptions conditionSetOf_defaultOptions
  resolveFor_def nullish_def falsy_def Let_def resolve_def normalizeConditions_def

text \<open>
  Claim C3 says that the constructor throws exactly when the four standard fields come
  out absent and the last-resort resolution against the priority list is Absent. The
  code tests the fields and the last-resort target with \<open>!\<close>, which is also true of the
  empty string: for the target \<open>""\<close> every resolution is the path \<open>""\<close>, not Absent,
  and the constructor throws all the same.
\<close>

theorem empty_path_target_throws:
  "newExportTarget (Str []) defaultOptions = Inl (InvalidExportTarget (Str []))
   \<and> resolveExportValue (Str []) (priorityOf defaultOptions) = RStr []
   \<and> resolveExportValue (Str []) (conditionSetOf defaultOptions Key_default) = RStr []"
  by (simp add: evalDefault)

lemma falsy_target_nonempty:
  "resolveExportValue v cs \<noteq> RStr [] \<Longrightarrow>
     falsy (target (resolveFor v cs)) = (target (resolveFor v cs) = None)"
  by (cases "resolveExportValue v cs") (simp_all add: resolveFor_def falsy_def)

lemma fallback_absent_nonempty:
  "resolveExportValue v cs \<noteq> RStr [] \<Longrightarrow>
     (falsy (target (resolveFor v cs)) \<and> \<not> blocked (resolveFor v cs))
       = (resolveExportValue v cs = RUndefined)"
  by (cases "resolveExportValue v cs") (simp_all add: resolveFor_def falsy_def)

text \<open>
  Claim C3 as amended. Let none of the five resolutions of the tree, against the four
  standard condition sets and against the priority list, be the empty string. Then the
  constructor throws exactly when the four standard results carry no target (each
  resolution is Absent or Blocked, so all four fields come out absent) and the
  last-resort resolution against the priority list is Absent. When the four standard
  results carry no target and the last-resort resolution is Blocked, the constructor
  succeeds, and the four fields of the target are absent. The empty object makes the
  constructor throw.
\<close>

theorem constructor_throws_iff_nothing_resolves:
  "(resolveExportValue v (conditionSetOf options Key_default) \<noteq> RStr []
      \<and> resolveExportValue v (conditionSetOf options Key_import) \<noteq> RStr []
      \<and> resolveExportValue v (conditionSetOf options Key_require) \<noteq> RStr []
      \<and> resolveExportValue v (conditionSetOf options Key_types) \<noteq> RStr []
      \<and> resolveExportValue v (priorityOf options) \<noteq> RStr []
    \<longrightarrow> (isl (newExportTarget v options) \<longleftrightarrow>
           target (resolveFor v (conditionSetOf options Key_default)) = None
           \<and> target (resolveFor v (conditionSetOf options Key_import)) = None
           \<and> target (resolveFor v (conditionSetOf options Key_require)) = None
           \<and> target (resolveFor v (conditionSetOf options Key_types)) = None
           \<and> resolveExportValue v (priorityOf options) = RUndefined))
   \<and> (target (resolveFor v (conditionSetOf options Key_default)) = None
      \<and> target (resolveFor v (conditionSetOf options Key_import)) = None
      \<and> target (resolveFor v (conditionSetOf options Key_require)) = None
      \<and> target (resolveFor v (conditionSetOf options Key_types)) = None
      \<and> resolveExportValue v (priorityOf options) = RNull
    \<longrightarrow> newExportTarget v options =
          Inr \<lparr>et_default = None, et_import = None, et_require = None, et_types = None,
               et_target = v, et_conditionPriority = priorityOf options,
               et_conditionSets = conditionSetOf options\<rparr>)
   \<and> newExportTarget (Obj []) options = Inl (InvalidExportTarget (Obj []))"
proof (intro conjI impI)
  assume h: "resolveExportValue v (conditionSetOf options Key_default) \<noteq> RStr []
      \<and> resolveExportValue v (conditionSetOf options Key_import) \<noteq> RStr []
      \<and> resolveExportValue v (conditionSetOf options Key_require) \<noteq> RStr []
      \<and> resolveExportValue v (conditionSetOf options Key_types) \<noteq> RStr []
      \<and> resolveExportValue v (priorityOf options) \<noteq> RStr []"
  have fb: "(falsy (target (resolveFor v (priorityOf options)))
        \<and> \<not> blocked (resolveFor v (priorityOf options)))
      = (resolveExportValue v (priorityOf options) = RUndefined)"
    using h by (intro fallback_absent_nonempty) simp
  show "isl (newExportTarget v options) \<longleftrightarrow>
           target (resolveFor v (conditionSetOf options Key_default)) = None
           \<and> target (resolveFor v (conditionSetOf options Key_import)) = None
           \<and> target (resolveFor v (conditionSetOf options Key_require)) = None
           \<and> target (resolveFor v (conditionSetOf options Key_types)) = None
           \<and> resolveExportValue v (priorityOf options) = RUndefined"
    using h fb by (simp add: isl_newExportTarget falsy_target_nonempty)
next
  assume "target (resolveFor v (conditionSetOf options Key_default)) = None
      \<and> target (resolveFor v (conditionSetOf options Key_import)) = None
      \<and> target (resolveFor v (conditionSetOf options Key_require)) = None
      \<and> target (resolveFor v (conditionSetOf options Key_types)) = None
      \<and> resolveExportValue v (priorityOf options) = RNull"
  moreover from this have "target (resolveFor v (priorityOf options)) = None"
    by (simp add: resolveFor_def)
  ultimately show "newExportTarget v options =
          Inr \<lparr>et_default = None, et_import = None, et_require = None, et_types = None,
               et_target = v, et_conditionPriority = priorityOf options,
               et_conditionSets = conditionSetOf options\<rparr>"
    by (simp add: newExportTarget_unfold nullish_def falsy_def Let_def blocked_resolveFor)
next
  show "newExportTarget (Obj []) options = Inl (InvalidExportTarget (Obj []))"
    by (simp add: newExportTarget_unfold resolveFor_def resolveObj_Nil nullish_def falsy_def Let_def)
qed

theorem constructor_throws_iff_nothing_resolves_witness:
  "resolveExportValue Null (conditionSetOf defaultOptions Key_default) \<noteq> RStr []
   \<and> resolveExportValue Null (conditionSetOf defaultOptions Key_import) \<noteq> RStr []
   \<and> resolveExportValue Null (conditionSetOf defaultOptions Key_require) \<noteq> RStr []
   \<and> resolveExportValue Null (conditionSetOf defaultOptions Key_types) \<noteq> RStr []
   \<and> resolveExportValue Null (priorityOf defaultOptions) \<noteq> RStr []
   \<and> target (resolveFor Null (conditionSetOf defaultOptions Key_default)) = None
   \<and> target (resolveFor Null (conditionSetOf defaultOptions Key_import)) = None
   \<and> target (resolveFor Null (conditionSetOf defaultOptions Key_require)) = None
   \<and> target (resolveFor Null (conditionSetOf defaultOptions Key_types)) = None
   \<and> resolveExportValue Null (priorityOf defaultOptions) = RNull
   \<and> \<not> isl (newExportTarget Null defaultOptions)
   \<and> map_sum id et_default (newExportTarget Null defaultOptions) = Inr None
   \<and> isl (newExportTarget (Obj [(''electron'', Str ''./e.js'')]) defaultOptions)
   \<and> \<not> isl (newExportTarget (Obj [(''node'', Str ''./n.js'')]) defaultOptions)"
  using constructor_throws_iff_nothing_resolves [of Null defaultOptions]
    constructor_throws_iff_nothing_resolves [of "Obj [(''electron'', Str ''./e.js'')]" defaultOptions]
    constructor_throws_iff_nothing_resolves [of "Obj [(''node'', Str ''./n.js'')]" defaultOptions]
  by (simp add: priorityOf_defaultOptions conditionSetOf_defaultOptions resolveFor_def)

text \<open>
  Claim C7. For \<open>{ default: null, import: "./dist/index.mjs" }\<close> and default options
  the constructor succeeds, the field \<open>default\<close> is \<open>./dist/index.mjs\<close>, and
  \<open>resolve(["default"])\<close> is \<open>undefined\<close>, the tree resolving to Blocked under the
  condition list \<open>default\<close> alone.
\<close>

theorem blocked_default_filled_by_import:
  "(case newExportTarget (Obj [(''default'', Null), (''import'', Str ''./dist/index.mjs'')]) defaultOptions of
      Inl e \<Rightarrow> False
    | Inr t \<Rightarrow> et_default t = Some ''./dist/index.mjs'' \<and> resolve t [''default''] = None)
   \<and> resolveExportValue (Obj [(''default'', Null), (''import'', Str ''./dist/index.mjs'')])
        (normalizeConditions [''default'']) = RNull
   \<and> resolveExportValue (Obj [(''default'', Null), (''import'', Str ''./dist/index.mjs'')])
        (conditionSetOf defaultOptions Key_default) = RNull
   \<and> resolveExportValue (Obj [(''default'', Null), (''import'', Str ''./dist/index.mjs'')])
        (conditionSetOf defaultOptions Key_import) = RStr ''./dist/index.mjs''"
  by (simp add: evalDefault)

text \<open>
  Claim C8. On a constructed target, \<open>resolve(conditions)\<close> normalizes the list (the
  duplicates go, first occurrences stay, \<open>default\<close> is appended when the list lacks it),
  resolves the tree the target was constructed from against the normalized list, and
  returns the path of a Leaf and \<open>undefined\<close> for Absent and for Blocked.
\<close>

theorem resolve_normalizes_and_reruns:
  "newExportTarget v options = Inr t \<Longrightarrow>
     normalizeConditions conditions
       = keepFirstOccurrences conditions @ (if ''default'' \<in> set conditions then [] else [''default''])
     \<and> resolve t conditions =
        (case resolveExportValue v
                (keepFirstOccurrences conditions @ (if ''default'' \<in> set conditions then [] else [''default''])) of
           RStr p \<Rightarrow> Some p
         | RNull \<Rightarrow> None
         | RUndefined \<Rightarrow> None)"
  using newExportTarget_target [of v options t]
  by (simp add: resolve_eq normalizeConditions_eq)

theorem resolve_normalizes_and_reruns_witness:
  "\<exists>t. newExportTarget (Obj [(''import'', Obj [(''node'', Str ''./n.mjs''), (''default'', Str ''./d.mjs'')]),
            (''require'', Null)]) defaultOptions = Inr t
     \<and> normalizeConditions [''browser'', ''import'', ''browser''] = [''browser'', ''import'', ''default'']
     \<and> resolve t [''browser'', ''import'', ''browser''] = Some ''./d.mjs''
     \<and> resolve t [''require''] = None
     \<and> resolve t [''types'', ''types''] = None"
proof -
  obtain t where t: "newExportTarget (Obj [(''import'', Obj [(''node'', Str ''./n.mjs''),
      (''default'', Str ''./d.mjs'')]), (''require'', Null)]) defaultOptions = Inr t"
    by (simp add: evalDefault)
  have k1: "keepFirstOccurrences [''browser'', ''import'', ''browser''] = [''browser'', ''import'']"
    by (simp add: keepFirstOccurrences_def)
  have k2: "keepFirstOccurrences [''require''] = [''require'']"
    by (simp add: keepFirstOccurrences_def)
  have k3: "keepFirstOccurrences [''types'', ''types''] = [''types'']"
    by (simp add: keepFirstOccurrences_def)
  show ?thesis
    using resolve_normalizes_and_reruns [OF t, of "[''browser'', ''import'', ''browser'']"]
      resolve_normalizes_and_reruns [OF t, of "[''require'']"]
      resolve_normalizes_and_reruns [OF t, of "[''types'', ''types'']"] t
    by (simp add: k1 k2 k3)
qed

subsection \<open>Empty nodes\<close>

lemma resolveArr_skip_undefined:
  "resolveExportValue e cs = RUndefined \<Longrightarrow>
     resolveArr (xs @ e # ys) cs b = resolveArr (xs @ ys) cs b"
  by (induction xs arbitrary: b) (auto split: resolved.splits)

lemma resolveObj_skip_undefined:
  assumes "resolveExportValue e cs = RUndefined" and "k \<notin> fst ` set (m1 @ m2)"
  shows "resolveObj (m1 @ (k, e) # m2) cs rest = resolveObj (m1 @ m2) cs rest"
proof -
  have none: "map_of m1 k = None" "map_of m2 k = None"
    using assms(2) by (auto simp: map_of_eq_None_iff)
  have look: "map_of (m1 @ (k, e) # m2) c = (if c = k then Some e else map_of (m1 @ m2) c)" for c
    using none by (simp add: map_add_def split: option.splits)
  have gone: "map_of (m1 @ m2) k = None"
    using none by (simp add: map_add_def)
  show ?thesis
    by (induction rest)
      (simp_all add: look gone assms(1) del: map_of_append map_of.simps
         split: option.splits resolved.splits)
qed

lemma empty_nodes_undefined:
  "e \<in> {Obj [], Arr []} \<Longrightarrow> resolveExportValue e cs = RUndefined"
  by (auto simp: resolveObj_Nil)

text \<open>
  Claim C9. An empty object and an empty array resolve to Absent under every condition
  list. Inside an array, or as an entry of an object, such a node is passed over: the
  enclosing node resolves as it does without it, and the constructor throws for the one
  tree exactly when it throws for the other. At the root the two empty nodes make the
  constructor throw. A tree whose resolution against the priority list is Blocked or a
  non-empty path is accepted by the constructor, whatever empty nodes it contains.
\<close>

theorem nested_empty_nodes_are_skipped:
  "resolveExportValue (Obj []) conditions = RUndefined
   \<and> resolveExportValue (Arr []) conditions = RUndefined
   \<and> (e \<in> {Obj [], Arr []} \<longrightarrow>
        resolveExportValue (Arr (xs @ e # ys)) conditions
          = resolveExportValue (Arr (xs @ ys)) conditions
        \<and> isl (newExportTarget (Arr (xs @ e # ys)) options)
          = isl (newExportTarget (Arr (xs @ ys)) options))
   \<and> (e \<in> {Obj [], Arr []} \<and> k \<notin> fst ` set (m1 @ m2) \<longrightarrow>
        resolveExportValue (Obj (m1 @ (k, e) # m2)) conditions
          = resolveExportValue (Obj (m1 @ m2)) conditions
        \<and> isl (newExportTarget (Obj (m1 @ (k, e) # m2)) options)
          = isl (newExportTarget (Obj (m1 @ m2)) options))
   \<and> isl (newExportTarget (Obj []) options)
   \<and> isl (newExportTarget (Arr []) options)
   \<and> (resolveExportValue v (priorityOf options) = RNull
        \<or> resolveExportValue v (priorityOf options) = RStr (ch # p)
      \<longrightarrow> \<not> isl (newExportTarget v options))"
proof (intro conjI impI)
  show "resolveExportValue (Obj []) conditions = RUndefined"
    by (simp add: resolveObj_Nil)
  show "resolveExportValue (Arr []) conditions = RUndefined"
    by simp
  show "isl (newExportTarget (Obj []) options)"
    by (simp add: newExportTarget_throws_iff resolveObj_Nil unusable_def)
  show "isl (newExportTarget (Arr []) options)"
    by (simp add: newExportTarget_throws_iff unusable_def)
next
  assume e: "e \<in> {Obj [], Arr []}"
  have eq: "resolveExportValue (Arr (xs @ e # ys)) cs = resolveExportValue (Arr (xs @ ys)) cs" for cs
    using resolveArr_skip_undefined [OF empty_nodes_undefined [OF e]] by simp
  show "resolveExportValue (Arr (xs @ e # ys)) conditions = resolveExportValue (Arr (xs @ ys)) conditions"
    by (rule eq)
  show "isl (newExportTarget (Arr (xs @ e # ys)) options) = isl (newExportTarget (Arr (xs @ ys)) options)"
    by (rule newExportTarget_isl_cong) (rule eq)
next
  assume h: "e \<in> {Obj [], Arr []} \<and> k \<notin> fst ` set (m1 @ m2)"
  then have e: "e \<in> {Obj [], Arr []}" and k: "k \<notin> fst ` set (m1 @ m2)"
    by simp_all
  have eq: "resolveExportValue (Obj (m1 @ (k, e) # m2)) cs = resolveExportValue (Obj (m1 @ m2)) cs" for cs
    using resolveObj_skip_undefined [OF empty_nodes_undefined [OF e] k] by simp
  show "resolveExportValue (Obj (m1 @ (k, e) # m2)) conditions = resolveExportValue (Obj (m1 @ m2)) conditions"
    by (rule eq)
  show "isl (newExportTarget (Obj (m1 @ (k, e) # m2)) options) = isl (newExportTarget (Obj (m1 @ m2)) options)"
    by (rule newExportTarget_isl_cong) (rule eq)
next
  assume "resolveExportValue v (priorityOf options) = RNull
        \<or> resolveExportValue v (priorityOf options) = RStr (ch # p)"
  then show "\<not> isl (newExportTarget v options)"
    by (auto simp: newExportTarget_throws_iff)
qed

theorem nested_empty_nodes_are_skipped_witness:
  "Obj [] \<in> {Obj [], Arr []}
   \<and> resolveExportValue (Arr ([Null] @ Obj [] # [Str ''./a.js''])) [''default''] = RStr ''./a.js''
   \<and> \<not> isl (newExportTarget (Arr ([Null] @ Obj [] # [Str ''./a.js''])) defaultOptions)
   \<and> ''node'' \<notin> fst ` set ([] @ [(''default'', Str ''./a.js'')])
   \<and> resolveExportValue (Obj ([] @ (''node'', Obj []) # [(''default'', Str ''./a.js'')])) [''node'', ''default'']
        = RStr ''./a.js''
   \<and> \<not> isl (newExportTarget (Obj ([] @ (''node'', Obj []) # [(''default'', Str ''./a.js'')])) defaultOptions)
   \<and> resolveExportValue (Arr [Obj [], Null]) (priorityOf defaultOptions) = RNull
   \<and> \<not> isl (newExportTarget (Arr [Obj [], Null]) defaultOptions)"
  using nested_empty_nodes_are_skipped [of "[''default'']" "Obj []" "[Null]" "[Str ''./a.js'']" defaultOptions
      "''node''" "[]" "[(''default'', Str ''./a.js'')]" "Arr [Obj [], Null]" "CHR ''a''" "[]"]
    nested_empty_nodes_are_skipped [of "[''node'', ''default'']" "Obj []" "[Null]" "[Str ''./a.js'']" defaultOptions
      "''node''" "[]" "[(''default'', Str ''./a.js'')]" "Arr [Obj [], Null]" "CHR ''a''" "[]"]
  by (simp add: evalDefault)

section \<open>Properties of the pattern matcher\<close>

subsection \<open>Substitution of the captures\<close>

text \<open>
  Claim C4 says that a leaf is scanned once from left to right and that every run of
  asterisks, single or double, takes the next unused capture. The code runs two passes:
  all markers \<open>**\<close> take their captures first, the markers \<open>*\<close> take what is left. For
  the pattern \<open>./*/**\<close>, the import path \<open>./a/b/c\<close> and the leaf \<open>./dist/*/**\<close> the
  captures are \<open>a\<close> and \<open>b/c\<close>; the scan of the claim gives \<open>./dist/a/b/c\<close>, the code
  gives \<open>./dist/b/c/a\<close>.
\<close>

theorem double_star_pass_runs_first:
  "extractCaptures ''./*/**'' ''./a/b/c'' = [''a'', ''b/c'']
   \<and> replaceWildcards ''./dist/*/**'' [''a'', ''b/c''] = ''./dist/b/c/a''
   \<and> leftToRightScan ''./dist/*/**'' [''a'', ''b/c''] = ''./dist/a/b/c''"
  by (simp add: replaceWildcards_def extractCaptures_def globToRegex_def regexSpecial_def
        lineTerminator_def)

subsection \<open>Selection of a pattern\<close>

lemma resolveImport_skip:
  "\<forall>(p, t) \<in> set before. \<not> minimatch importPath p \<Longrightarrow>
     resolveImport minimatch (before @ rest) importPath options
       = resolveImport minimatch rest importPath options"
  by (induction before) auto

text \<open>
  Claim C5 says that a pattern without an asterisk is selected only when it equals the
  subpath as a string, and that it is never read as a glob. The code asks \<open>minimatch\<close>
  about every pattern first, so a pattern without an asterisk is read as a glob all the
  same: with the glob meaning of the question mark, the pattern \<open>./util?\<close> is selected
  for the subpath \<open>./utils\<close>.
\<close>

theorem question_mark_pattern_selected:
  "CHR ''*'' \<notin> set ''./util?'' \<and> ''./util?'' \<noteq> ''./utils''
   \<and> map_sum id (map_option et_default)
         (resolveImport questionMarkGlob [(''./util?'', Str ''./dist/utils.js'')] ''./utils'' defaultOptions)
       = Inr (Some (Some ''./dist/utils.js''))"
  by (simp add: evalDefault questionMarkGlob_def)

text \<open>
  Claim C5 as amended. A pattern without an asterisk that the loop reaches is selected
  exactly when \<open>minimatch\<close> accepts the import path for it; the constructor then gets the
  stored export value as it is, without captures or substitution. Otherwise the loop
  goes on with the patterns after it.
\<close>

theorem wildcard_free_pattern_goes_through_minimatch:
  "CHR ''*'' \<notin> set pattern \<and> (\<forall>(p, t) \<in> set before. \<not> minimatch importPath p) \<longrightarrow>
     resolveImport minimatch (before @ (pattern, tgt) # rest) importPath options
       = (if minimatch importPath pattern
          then map_sum id Some (newExportTarget tgt options)
          else resolveImport minimatch rest importPath options)"
  by (simp add: resolveImport_skip)

theorem wildcard_free_pattern_goes_through_minimatch_witness:
  "CHR ''*'' \<notin> set ''./util?''
   \<and> \<not> questionMarkGlob ''./utils'' ''./other''
   \<and> questionMarkGlob ''./utils'' ''./util?''
   \<and> resolveImport questionMarkGlob ([(''./other'', Null)] @ (''./util?'', Str ''./dist/utils.js'') # [])
         ''./utils'' defaultOptions
       = map_sum id Some (newExportTarget (Str ''./dist/utils.js'') defaultOptions)
   \<and> \<not> questionMarkGlob ''./utilities'' ''./util?''
   \<and> resolveImport questionMarkGlob ([(''./other'', Null)] @ (''./util?'', Str ''./dist/utils.js'') # [])
         ''./utilities'' defaultOptions = Inr None"
  using wildcard_free_pattern_goes_through_minimatch [of "''./util?''" "[(''./other'', Null)]" questionMarkGlob "''./utils''"
      "Str ''./dist/utils.js''" "[]" defaultOptions]
    wildcard_free_pattern_goes_through_minimatch [of "''./util?''" "[(''./other'', Null)]" questionMarkGlob "''./utilities''"
      "Str ''./dist/utils.js''" "[]" defaultOptions]
  by (simp add: questionMarkGlob_def)

lemma objectEntries_no_index:
  "\<forall>(p, t) \<in> set properties. \<not> isArrayIndex p \<Longrightarrow> objectEntries properties = properties"
proof -
  assume h: "\<forall>(p, t) \<in> set properties. \<not> isArrayIndex p"
  then have "filter (\<lambda>(key, v). isArrayIndex key) properties = []"
    by (auto simp: filter_empty_conv)
  moreover from h have "filter (\<lambda>(key, v). \<not> isArrayIndex key) properties = properties"
    by (auto simp: filter_id_conv)
  ultimately show ?thesis
    by (simp add: objectEntries_def)
qed

lemma set_objectEntries: "set (objectEntries properties) = set properties"
  by (auto simp: objectEntries_def)

lemma resolveImport_none:
  "\<forall>(p, t) \<in> set entries. \<not> minimatch importPath p \<Longrightarrow>
     resolveImport minimatch entries importPath options = Inr None"
  using resolveImport_skip [of entries minimatch importPath "[]" options] by simp

text \<open>
  Claim C6 says that the first pattern in the declaration order of the table decides, and
  that exchanging two matching entries exchanges the result. The loop runs over
  \<open>Object.entries\<close>, which puts a key that is an array index before every other key:
  with the patterns \<open>?\<close> and \<open>1\<close> declared in this order, the subpath \<open>1\<close> matches both
  and gets the target of \<open>1\<close>, the second declared, and it gets the same target when the
  two are declared the other way round.
\<close>

lemma entries_cex:
  "objectEntries [(''?'', Str ''./any.js''), (''1'', Str ''./one.js'')]
     = [(''1'', Str ''./one.js''), (''?'', Str ''./any.js'')]"
  "objectEntries [(''1'', Str ''./one.js''), (''?'', Str ''./any.js'')]
     = [(''1'', Str ''./one.js''), (''?'', Str ''./any.js'')]"
  by (simp_all add: objectEntries_def isArrayIndex_def isDigit_def indexValue_def)

theorem index_key_is_tried_first:
  "questionMarkGlob ''1'' ''?'' \<and> questionMarkGlob ''1'' ''1''
   \<and> map_sum id (map_option et_default)
         (GlobResolver_resolveImport questionMarkGlob
            [(''?'', Str ''./any.js''), (''1'', Str ''./one.js'')] ''1'' defaultOptions)
       = Inr (Some (Some ''./one.js''))
   \<and> map_sum id (map_option et_default)
         (GlobResolver_resolveImport questionMarkGlob
            [(''1'', Str ''./one.js''), (''?'', Str ''./any.js'')] ''1'' defaultOptions)
       = Inr (Some (Some ''./one.js''))"
  by (simp add: GlobResolver_resolveImport_def entries_cex questionMarkGlob_def evalDefault)

text \<open>
  Claim C6 as amended. Let no key of the pattern table be an array index. Then the result
  of \<open>resolveImport\<close> is built from the first pattern in the declaration order of the
  table that \<open>minimatch\<close> accepts, whatever patterns follow it; and when two patterns
  both match, the table with the one declared first gives the result of the one, the
  table with the two exchanged gives the result of the other. For every table, when no
  pattern matches, the result is \<open>undefined\<close> and nothing is thrown.
\<close>

theorem first_declared_match_wins_without_index_keys:
  "((\<forall>(p, t) \<in> set (before @ (pattern, tgt) # rest). \<not> isArrayIndex p)
        \<and> (\<forall>(p, t) \<in> set before. \<not> minimatch importPath p) \<and> minimatch importPath pattern
      \<longrightarrow> GlobResolver_resolveImport minimatch (before @ (pattern, tgt) # rest) importPath options
            = map_sum id Some (newExportTarget (targetFor pattern tgt importPath) options))
   \<and> ((\<forall>(p, t) \<in> set (before @ (p1, t1) # mid @ (p2, t2) # rest). \<not> isArrayIndex p)
        \<and> (\<forall>(p, t) \<in> set before. \<not> minimatch importPath p)
        \<and> minimatch importPath p1 \<and> minimatch importPath p2
      \<longrightarrow> GlobResolver_resolveImport minimatch (before @ (p1, t1) # mid @ (p2, t2) # rest)
              importPath options
            = map_sum id Some (newExportTarget (targetFor p1 t1 importPath) options)
          \<and> GlobResolver_resolveImport minimatch (before @ (p2, t2) # mid @ (p1, t1) # rest)
              importPath options
            = map_sum id Some (newExportTarget (targetFor p2 t2 importPath) options))
   \<and> ((\<forall>(p, t) \<in> set patterns. \<not> minimatch importPath p)
      \<longrightarrow> GlobResolver_resolveImport minimatch patterns importPath options = Inr None)"
proof (intro conjI impI)
  assume h: "(\<forall>(p, t) \<in> set (before @ (pattern, tgt) # rest). \<not> isArrayIndex p)
        \<and> (\<forall>(p, t) \<in> set before. \<not> minimatch importPath p) \<and> minimatch importPath pattern"
  then have "objectEntries (before @ (pattern, tgt) # rest) = before @ (pattern, tgt) # rest"
    by (intro objectEntries_no_index) simp
  with h show "GlobResolver_resolveImport minimatch (before @ (pattern, tgt) # rest) importPath options
      = map_sum id Some (newExportTarget (targetFor pattern tgt importPath) options)"
    by (simp add: GlobResolver_resolveImport_def resolveImport_skip targetFor_def Let_def)
next
  assume h: "(\<forall>(p, t) \<in> set (before @ (p1, t1) # mid @ (p2, t2) # rest). \<not> isArrayIndex p)
        \<and> (\<forall>(p, t) \<in> set before. \<not> minimatch importPath p)
        \<and> minimatch importPath p1 \<and> minimatch importPath p2"
  then have e1: "objectEntries (before @ (p1, t1) # mid @ (p2, t2) # rest)
      = before @ (p1, t1) # mid @ (p2, t2) # rest"
    by (intro objectEntries_no_index) simp
  from h have e2: "objectEntries (before @ (p2, t2) # mid @ (p1, t1) # rest)
      = before @ (p2, t2) # mid @ (p1, t1) # rest"
    by (intro objectEntries_no_index) auto
  from h show "GlobResolver_resolveImport minimatch (before @ (p1, t1) # mid @ (p2, t2) # rest)
      importPath options = map_sum id Some (newExportTarget (targetFor p1 t1 importPath) options)"
    unfolding GlobResolver_resolveImport_def e1
    by (simp add: resolveImport_skip targetFor_def Let_def)
  from h show "GlobResolver_resolveImport minimatch (before @ (p2, t2) # mid @ (p1, t1) # rest)
      importPath options = map_sum id Some (newExportTarget (targetFor p2 t2 importPath) options)"
    unfolding GlobResolver_resolveImport_def e2
    by (simp add: resolveImport_skip targetFor_def Let_def)
next
  assume "\<forall>(p, t) \<in> set patterns. \<not> minimatch importPath p"
  then show "GlobResolver_resolveImport minimatch patterns importPath options = Inr None"
    unfolding GlobResolver_resolveImport_def
    by (intro resolveImport_none) (simp add: set_objectEntries)
qed

theorem first_declared_match_wins_without_index_keys_witness:
  "\<not> isArrayIndex ''.'' \<and> \<not> isArrayIndex ''./util?'' \<and> \<not> isArrayIndex ''./utils''
   \<and> \<not> questionMarkGlob ''./utils'' ''.''
   \<and> questionMarkGlob ''./utils'' ''./util?''
   \<and> questionMarkGlob ''./utils'' ''./utils''
   \<and> map_sum id (map_option et_default)
         (GlobResolver_resolveImport questionMarkGlob
            ([(''.'', Str ''./dist/index.js'')] @ (''./util?'', Str ''./dist/any.js'') # []
               @ (''./utils'', Str ''./special/utils.js'') # [])
            ''./utils'' defaultOptions)
       = Inr (Some (Some ''./dist/any.js''))
   \<and> map_sum id (map_option et_default)
         (GlobResolver_resolveImport questionMarkGlob
            ([(''.'', Str ''./dist/index.js'')] @ (''./utils'', Str ''./special/utils.js'') # []
               @ (''./util?'', Str ''./dist/any.js'') # [])
            ''./utils'' defaultOptions)
       = Inr (Some (Some ''./special/utils.js''))
   \<and> \<not> questionMarkGlob ''./nonexistent'' ''.''
   \<and> GlobResolver_resolveImport questionMarkGlob [(''.'', Str ''./dist/index.js'')]
         ''./nonexistent'' defaultOptions = Inr None"
proof -
  have idx: "\<not> isArrayIndex ''.''" "\<not> isArrayIndex ''./util?''" "\<not> isArrayIndex ''./utils''"
    by (simp_all add: isArrayIndex_def isDigit_def)
  have glob: "\<not> questionMarkGlob ''./utils'' ''.''" "questionMarkGlob ''./utils'' ''./util?''"
    "questionMarkGlob ''./utils'' ''./utils''" "\<not> questionMarkGlob ''./nonexistent'' ''.''"
    by (simp_all add: questionMarkGlob_def)
  show ?thesis
    using first_declared_match_wins_without_index_keys
        [where before = "[(''.'', Str ''./dist/index.js'')]" and minimatch = questionMarkGlob
          and importPath = "''./utils''" and pattern = "''./util?''" and tgt = "Str ''./dist/any.js''"
          and rest = "[]" and options = defaultOptions and ?p1.0 = "''./util?''"
          and ?p2.0 = "''./utils''" and ?t1.0 = "Str ''./dist/any.js''" and mid = "[]"
          and ?t2.0 = "Str ''./special/utils.js''" and patterns = "[]"]
      first_declared_match_wins_without_index_keys
        [where before = "[]" and minimatch = questionMarkGlob
          and importPath = "''./nonexistent''" and pattern = "''.''" and tgt = Null
          and rest = "[]" and options = defaultOptions and ?p1.0 = "''.''" and ?p2.0 = "''.''"
          and ?t1.0 = Null and mid = "[]" and ?t2.0 = Null
          and patterns = "[(''.'', Str ''./dist/index.js'')]"]
    by (simp add: idx glob targetFor_def evalDefault)
qed

section \<open>Repeated resolution\<close>

lemma normalizeLoop_distinct_input:
  "distinct (acc @ cs) \<Longrightarrow> set acc = seen \<Longrightarrow>
     normalizeLoop cs seen acc = (seen \<union> set cs, acc @ cs)"
  by (induction cs arbitrary: seen acc) auto

lemma normalizeLoop_invariant:
  "distinct acc \<Longrightarrow> set acc = seen \<Longrightarrow> normalizeLoop cs seen acc = (seen', acc') \<Longrightarrow>
     distinct acc' \<and> set acc' = seen'"
proof (induction cs arbitrary: seen acc)
  case Nil
  then show ?case by simp
next
  case (Cons c cs)
  show ?case
  proof (cases "c \<in> seen")
    case True
    with Cons.prems have "normalizeLoop cs seen acc = (seen', acc')"
      by simp
    from Cons.IH [OF Cons.prems(1,2) this] show ?thesis .
  next
    case False
    with Cons.prems have run: "normalizeLoop cs (insert c seen) (acc @ [c]) = (seen', acc')"
      by simp
    have "distinct (acc @ [c])" and "set (acc @ [c]) = insert c seen"
      using False Cons.prems by auto
    from Cons.IH [OF this run] show ?thesis .
  qed
qed

lemma normalizeConditions_distinct:
  "distinct (normalizeConditions cs) \<and> ''default'' \<in> set (normalizeConditions cs)"
proof (cases "normalizeLoop cs {} []")
  case (Pair seen' acc')
  from normalizeLoop_invariant [OF _ _ Pair] have "distinct acc' \<and> set acc' = seen'"
    by simp
  with Pair show ?thesis
    by (auto simp: normalizeConditions_def)
qed

lemma normalizeConditions_fixed:
  assumes "distinct cs" and "''default'' \<in> set cs"
  shows "normalizeConditions cs = cs"
  using normalizeLoop_distinct_input [of "[]" cs "{}"] assms
  by (simp add: normalizeConditions_def)

lemma normalizeConditions_idem:
  "normalizeConditions (normalizeConditions cs) = normalizeConditions cs"
  by (rule normalizeConditions_fixed) (simp_all add: normalizeConditions_distinct)

lemma conditionSetOf_normalized:
  "normalizeConditions (conditionSetOf options key) = conditionSetOf options key"
  by (simp add: conditionSetOf_def normalizeConditions_idem)

lemma newExportTarget_fields:
  assumes "newExportTarget v options = Inr t"
  shows "et_import t = target (resolveFor v (conditionSetOf options Key_import))"
    and "et_require t = target (resolveFor v (conditionSetOf options Key_require))"
    and "et_types t = target (resolveFor v (conditionSetOf options Key_types))"
    and "et_conditionSets t = conditionSetOf options"
    and "et_conditionPriority t = priorityOf options"
    and "et_target t = v"
  using assms by (auto simp: newExportTarget_unfold Let_def split: if_splits)

lemma resolve_target:
  "resolve t cs = target (resolveFor (et_target t) (normalizeConditions cs))"
  by (simp add: resolve_def resolveFor_def Let_def split: resolved.splits)

text \<open>
  Claim C10. The functions of the resolver read their arguments and the fields the
  constructor has set, and nothing else, so they are functions of these: two resolutions
  of one tree against one condition list have one result, and two targets constructed
  from one tree with the same options agree on \<open>default\<close>, \<open>import\<close>, \<open>require\<close> and
  \<open>types\<close>. Resolution on a constructed target repeats as well: \<open>resolve\<close> depends on
  the tree alone, not on the options of the construction; calling it with a stored
  standard condition set returns the field the constructor computed from that set; and
  normalizing the condition list beforehand does not change its result.
\<close>

theorem resolution_is_repeatable:
  "(resolveExportValue v conditions = r1 \<and> resolveExportValue v conditions = r2 \<longrightarrow> r1 = r2)
   \<and> (newExportTarget v options = Inr t1 \<and> newExportTarget v options = Inr t2 \<longrightarrow>
        et_default t1 = et_default t2 \<and> et_import t1 = et_import t2
        \<and> et_require t1 = et_require t2 \<and> et_types t1 = et_types t2)
   \<and> (newExportTarget v options1 = Inr t1 \<and> newExportTarget v options2 = Inr t2 \<longrightarrow>
        resolve t1 conditions = resolve t2 conditions)
   \<and> (newExportTarget v options = Inr t \<longrightarrow>
        resolve t (et_conditionSets t Key_import) = et_import t
        \<and> resolve t (et_conditionSets t Key_require) = et_require t
        \<and> resolve t (et_conditionSets t Key_types) = et_types t
        \<and> resolve t (normalizeConditions conditions) = resolve t conditions)"
proof (intro conjI impI)
  assume "resolveExportValue v conditions = r1 \<and> resolveExportValue v conditions = r2"
  then show "r1 = r2" by auto
next
  assume h: "newExportTarget v options = Inr t1 \<and> newExportTarget v options = Inr t2"
  then have "Inr t1 = (Inr t2 :: error + ExportTarget)"
    by (elim conjE) (rule trans [OF sym])
  then have "t1 = t2" by (simp only: sum.inject)
  then show "et_default t1 = et_default t2" "et_import t1 = et_import t2"
    "et_require t1 = et_require t2" "et_types t1 = et_types t2"
    by simp_all
next
  assume "newExportTarget v options1 = Inr t1 \<and> newExportTarget v options2 = Inr t2"
  then have "et_target t1 = v" "et_target t2 = v"
    by (auto dest: newExportTarget_target)
  then show "resolve t1 conditions = resolve t2 conditions"
    by (simp add: resolve_target)
next
  assume t: "newExportTarget v options = Inr t"
  show "resolve t (et_conditionSets t Key_import) = et_import t"
    by (simp add: resolve_target newExportTarget_fields [OF t] conditionSetOf_normalized)
  show "resolve t (et_conditionSets t Key_require) = et_require t"
    by (simp add: resolve_target newExportTarget_fields [OF t] conditionSetOf_normalized)
  show "resolve t (et_conditionSets t Key_types) = et_types t"
    by (simp add: resolve_target newExportTarget_fields [OF t] conditionSetOf_normalized)
  show "resolve t (normalizeConditions conditions) = resolve t conditions"
    by (simp add: resolve_target normalizeConditions_idem)
qed


theorem resolution_is_repeatable_witness:
  "\<exists>t1 t2.
     newExportTarget (Obj [(''import'', Str ''./i.mjs''), (''require'', Str ''./r.cjs'')]) defaultOptions = Inr t1
     \<and> newExportTarget (Obj [(''import'', Str ''./i.mjs''), (''require'', Str ''./r.cjs'')])
          \<lparr>conditionPriority = Some [''require''], conditionSets = None\<rparr> = Inr t2
     \<and> et_import t1 = Some ''./i.mjs''
     \<and> resolve t1 (et_conditionSets t1 Key_import) = Some ''./i.mjs''
     \<and> et_default t2 = Some ''./r.cjs''
     \<and> resolve t1 [''types''] = None
     \<and> resolve t2 [''types''] = None"
proof -
  obtain t1 where t1: "newExportTarget (Obj [(''import'', Str ''./i.mjs''), (''require'', Str ''./r.cjs'')])
      defaultOptions = Inr t1"
    by (simp add: evalDefault)
  obtain t2 where t2: "newExportTarget (Obj [(''import'', Str ''./i.mjs''), (''require'', Str ''./r.cjs'')])
      \<lparr>conditionPriority = Some [''require''], conditionSets = None\<rparr> = Inr t2"
    by (simp add: newExportTarget_unfold conditionSetOf_def priorityOf_def conditionSetOr_def keyName_def
          normalizeConditions_def resolveFor_def nullish_def falsy_def Let_def)
  have i1: "et_import t1 = Some ''./i.mjs''"
    using t1 by (auto simp: evalDefault)
  have d2: "et_default t2 = Some ''./r.cjs''"
    using t2 by (auto simp: newExportTarget_unfold conditionSetOf_def priorityOf_def conditionSetOr_def
          keyName_def normalizeConditions_def resolveFor_def nullish_def falsy_def Let_def)
  have r1: "resolve t1 [''types''] = None"
    using t1 by (auto simp: evalDefault)
  show ?thesis
    using resolution_is_repeatable [where v = "Obj [(''import'', Str ''./i.mjs''), (''require'', Str ''./r.cjs'')]"
        and options = defaultOptions and ?options1.0 = defaultOptions
        and ?options2.0 = "\<lparr>conditionPriority = Some [''require''], conditionSets = None\<rparr>"
        and ?t1.0 = t1 and ?t2.0 = t2 and t = t1 and conditions = "[''types'']"] t1 t2 i1 d2 r1
    by auto
qed

end
